theory Spec2Isabelle
  imports Main "HOL-Library.AList"
begin

section \<open>JavaScript values\<close>

text \<open>
  The fetch wrapper of the repository (packages/fetch: \<open>utils.ts\<close>, \<open>core.ts\<close>,
  \<open>types.ts\<close>, \<open>polyfill.ts\<close>) is embedded function by function.

  Conventions of the embedding.
  \<^item> A JavaScript \<open>number\<close> is an \<open>int\<close> and stands for a safe integer (of
    magnitude below \<open>2 ^ 53\<close>): fractions, NaN, the infinities, IEEE rounding and the
    exponent notation of large numbers are outside the model. \<open>Math.pow(b, n)\<close> is
    \<open>b ^ n\<close>.
  \<^item> A string is a \<open>string\<close> (a list of bytes, UTF-8).
  \<^item> An optional property is an \<open>option\<close>: \<open>None\<close> is "the property is absent".
    A property that is present and holds \<open>undefined\<close> is only modelled for \<open>body\<close>
    (which \<open>post\<close>, \<open>put\<close> and \<open>patch\<close> always set) and for query parameters.
  \<^item> A plain object is the list of its entries, in the order \<open>Object.entries\<close>
    enumerates them.
  \<^item> \<open>throw\<close> and promise rejection are the \<open>Inl\<close> of a sum; \<open>await\<close> is
    sequencing.
\<close>

datatype jsval =
    JUndefined
  | JNull
  | JBool bool
  | JNum int
  | JStr string
  | JArr "jsval list"
  | JObj "(string \<times> jsval) list"
  | JBlob string
  | JArrayBuffer
  | JFormData "(string \<times> string) list"
  | JURLSearchParams "(string \<times> string) list"
  | JReadableStream

text \<open>
  \<open>JBlob t\<close> is a Blob whose declared type is \<open>t\<close>. No value of \<open>jsval\<close> is a
  function.

  A value thrown by the platform (the transport, a body accessor of a response, a
  method of \<open>Headers\<close>, \<open>String\<close>): an \<open>Error\<close> with its name and message, or
  any other value.
\<close>

datatype exn = JsError string string | JsThrown jsval

subsection \<open>Numbers and strings\<close>

definition digit_char :: "nat \<Rightarrow> char" where
  "digit_char d =
     (if d = 0 then CHR ''0'' else if d = 1 then CHR ''1'' else if d = 2 then CHR ''2''
      else if d = 3 then CHR ''3'' else if d = 4 then CHR ''4'' else if d = 5 then CHR ''5''
      else if d = 6 then CHR ''6'' else if d = 7 then CHR ''7'' else if d = 8 then CHR ''8''
      else CHR ''9'')"

fun string_of_nat :: "nat \<Rightarrow> string" where
  "string_of_nat n =
     (if n < 10 then [digit_char n] else string_of_nat (n div 10) @ [digit_char (n mod 10)])"

declare string_of_nat.simps [simp del]

text \<open>\<open>String(n)\<close> for an integer number.\<close>

definition string_of_int :: "int \<Rightarrow> string" where
  "string_of_int i = (if i < 0 then CHR ''-'' # string_of_nat (nat (- i)) else string_of_nat (nat i))"

definition hex_char :: "nat \<Rightarrow> char" where
  "hex_char d =
     (if d < 10 then digit_char d else if d = 10 then CHR ''A'' else if d = 11 then CHR ''B''
      else if d = 12 then CHR ''C'' else if d = 13 then CHR ''D'' else if d = 14 then CHR ''E''
      else CHR ''F'')"

definition hex_char_lower :: "nat \<Rightarrow> char" where
  "hex_char_lower d =
     (if d < 10 then digit_char d else if d = 10 then CHR ''a'' else if d = 11 then CHR ''b''
      else if d = 12 then CHR ''c'' else if d = 13 then CHR ''d'' else if d = 14 then CHR ''e''
      else CHR ''f'')"

fun join :: "string \<Rightarrow> string list \<Rightarrow> string" where
  "join sep [] = []"
| "join sep [x] = x"
| "join sep (x # y # ys) = x @ sep @ join sep (y # ys)"

text \<open>
  \<open>String(v)\<close>, the coercion of a value to a string, throws a \<open>TypeError\<close> for an
  object that has no conversion to a primitive value. Among the values of \<open>jsval\<close>
  these are the plain objects with a property \<open>toString\<close> of their own (it is not a
  function, and the inherited \<open>valueOf\<close> returns the object), and the arrays with an
  element whose conversion throws (\<open>join\<close> converts every element but \<open>null\<close> and
  \<open>undefined\<close>). An object without a prototype behaves in the same way.
\<close>

fun String_throws :: "jsval \<Rightarrow> bool" where
  "String_throws (JObj kvs) = (''toString'' \<in> fst ` set kvs)"
| "String_throws (JArr xs) = (\<exists>x \<in> set xs. String_throws x)"
| "String_throws v = False"

definition String_TypeError :: exn where
  "String_TypeError = JsError ''TypeError'' ''Cannot convert object to primitive value''"

text \<open>\<open>js_String v\<close> is the string \<open>String(v)\<close> returns when it does not throw.\<close>

fun js_String :: "jsval \<Rightarrow> string" where
  "js_String JUndefined = ''undefined''"
| "js_String JNull = ''null''"
| "js_String (JBool b) = (if b then ''true'' else ''false'')"
| "js_String (JNum n) = string_of_int n"
| "js_String (JStr s) = s"
| "js_String (JArr xs) =
     join '','' (map (\<lambda>x. if x = JUndefined \<or> x = JNull then [] else js_String x) xs)"
| "js_String (JObj kvs) = ''[object Object]''"
| "js_String (JBlob t) = ''[object Blob]''"
| "js_String JArrayBuffer = ''[object ArrayBuffer]''"
| "js_String (JFormData es) = ''[object FormData]''"
| "js_String (JURLSearchParams es) = ''[object URLSearchParams]''"
| "js_String JReadableStream = ''[object ReadableStream]''"

subsection \<open>JSON.stringify\<close>

text \<open>
  A string is quoted, with the double quote, the backslash and the control characters
  escaped.
\<close>

definition json_escape_char :: "char \<Rightarrow> string" where
  "json_escape_char c =
     (let n = (of_char c :: nat) in
      if n = 34 then [CHR 0x5C, CHR 0x22]
      else if n = 92 then [CHR 0x5C, CHR 0x5C]
      else if n = 8 then [CHR 0x5C, CHR ''b'']
      else if n = 9 then [CHR 0x5C, CHR ''t'']
      else if n = 10 then [CHR 0x5C, CHR ''n'']
      else if n = 12 then [CHR 0x5C, CHR ''f'']
      else if n = 13 then [CHR 0x5C, CHR ''r'']
      else if n < 32 then [CHR 0x5C, CHR ''u'', CHR ''0'', CHR ''0'',
                           hex_char_lower (n div 16), hex_char_lower (n mod 16)]
      else [c])"

definition json_quote :: "string \<Rightarrow> string" where
  "json_quote s = [CHR 0x22] @ concat (map json_escape_char s) @ [CHR 0x22]"

text \<open>
  \<open>JSON.stringify\<close>: \<open>None\<close> is the result \<open>undefined\<close>. A property whose value
  serializes to \<open>undefined\<close> is left out of an object and is \<open>null\<close> in an array; a
  host object without enumerable properties of its own is \<open>{}\<close>.
\<close>

fun JSON_stringify :: "jsval \<Rightarrow> string option" where
  "JSON_stringify JUndefined = None"
| "JSON_stringify JNull = Some ''null''"
| "JSON_stringify (JBool b) = Some (if b then ''true'' else ''false'')"
| "JSON_stringify (JNum n) = Some (string_of_int n)"
| "JSON_stringify (JStr s) = Some (json_quote s)"
| "JSON_stringify (JArr xs) =
     Some (''['' @ join '',''
             (map (\<lambda>x. case JSON_stringify x of None \<Rightarrow> ''null'' | Some s \<Rightarrow> s) xs) @ '']'')"
| "JSON_stringify (JObj kvs) =
     Some (''{'' @ join '',''
             (concat (map (\<lambda>kv. case JSON_stringify (snd kv) of
                                   None \<Rightarrow> []
                                 | Some s \<Rightarrow> [json_quote (fst kv) @ '':'' @ s]) kvs)) @ ''}'')"
| "JSON_stringify (JBlob t) = Some ''{}''"
| "JSON_stringify JArrayBuffer = Some ''{}''"
| "JSON_stringify (JFormData es) = Some ''{}''"
| "JSON_stringify (JURLSearchParams es) = Some ''{}''"
| "JSON_stringify JReadableStream = Some ''{}''"

section \<open>utils.ts: URLs and query parameters\<close>

text \<open>
  A query parameter is \<open>string | number | boolean | undefined | null\<close>.
\<close>

datatype param = PStr string | PNum int | PBool bool | PUndefined | PNull

fun param_String :: "param \<Rightarrow> string" where
  "param_String (PStr s) = s"
| "param_String (PNum n) = string_of_int n"
| "param_String (PBool b) = (if b then ''true'' else ''false'')"
| "param_String PUndefined = ''undefined''"
| "param_String PNull = ''null''"

text \<open>
  \<open>URLSearchParams\<close>: the list of its pairs. \<open>toString\<close> is the
  \<open>application/x-www-form-urlencoded\<close> serializer: a space becomes \<open>+\<close>, a byte
  outside \<open>*-._\<close>, digits and letters becomes \<open>%XX\<close>.
\<close>

type_synonym URLSearchParams = "(string \<times> string) list"

definition USP_append :: "string \<Rightarrow> string \<Rightarrow> URLSearchParams \<Rightarrow> URLSearchParams" where
  "USP_append k v sp = sp @ [(k, v)]"

definition urlencode_keep :: "char \<Rightarrow> bool" where
  "urlencode_keep c \<longleftrightarrow>
     c \<in> set ''*-._0123456789ABCDEFGHIJKLMNOPQRSTUVWXYZabcdefghijklmnopqrstuvwxyz''"

definition urlencode_char :: "char \<Rightarrow> string" where
  "urlencode_char c =
     (if c = CHR '' '' then ''+''
      else if urlencode_keep c then [c]
      else [CHR ''%'', hex_char ((of_char c :: nat) div 16), hex_char ((of_char c :: nat) mod 16)])"

definition urlencode :: "string \<Rightarrow> string" where
  "urlencode s = concat (map urlencode_char s)"

definition USP_toString :: "URLSearchParams \<Rightarrow> string" where
  "USP_toString sp = join ''&'' (map (\<lambda>kv. urlencode (fst kv) @ ''='' @ urlencode (snd kv)) sp)"

text \<open>
  \<open>buildURL\<close> (utils.ts, lines 6 to 22). The \<open>forEach\<close> over \<open>Object.entries(params)\<close>
  is a fold that appends to the search parameters.
\<close>

definition buildURL :: "string \<Rightarrow> (string \<times> param) list option \<Rightarrow> string" where
  "buildURL url params =
     (case params of
        None \<Rightarrow> url
      | Some ps \<Rightarrow>
          let searchParams =
                fold (\<lambda>kv sp. if snd kv \<noteq> PUndefined \<and> snd kv \<noteq> PNull
                                then USP_append (fst kv) (param_String (snd kv)) sp else sp) ps [];
              queryString = USP_toString searchParams
          in if queryString = [] then url
             else let separator = (if CHR ''?'' \<in> set url then ''&'' else ''?'')
                  in url @ separator @ queryString)"

section \<open>utils.ts: headers\<close>

text \<open>
  A \<open>Headers\<close> object is the list of its pairs, the names in lower case (the class
  compares names without case). \<open>set\<close> strips the HTTP whitespace (tab, line feed,
  carriage return, space) around the value, throws a \<open>TypeError\<close> when the name is
  not a token or the stripped value holds a NUL, a line feed, a carriage return or a
  character beyond U+00FF, and otherwise replaces the value of the name or adds the
  pair. The text of the error's message is the platform's.
\<close>

type_synonym Headers = "(string \<times> string) list"

definition lower_char :: "char \<Rightarrow> char" where
  "lower_char c =
     (case map_of (zip ''ABCDEFGHIJKLMNOPQRSTUVWXYZ'' ''abcdefghijklmnopqrstuvwxyz'') c of
        None \<Rightarrow> c
      | Some l \<Rightarrow> l)"

definition lower :: "string \<Rightarrow> string" where
  "lower s = map lower_char s"

definition http_whitespace :: "char \<Rightarrow> bool" where
  "http_whitespace c \<longleftrightarrow> c \<in> {CHR 0x09, CHR 0x0A, CHR 0x0D, CHR 0x20}"

definition normalize_value :: "string \<Rightarrow> string" where
  "normalize_value v = rev (dropWhile http_whitespace (rev (dropWhile http_whitespace v)))"

definition token_char :: "char \<Rightarrow> bool" where
  "token_char c \<longleftrightarrow>
     c \<in> set ''0123456789ABCDEFGHIJKLMNOPQRSTUVWXYZabcdefghijklmnopqrstuvwxyz''
     \<or> c \<in> {CHR ''!'', CHR ''#'', CHR ''$'', CHR ''%'', CHR ''&'', CHR 0x27, CHR ''*'',
             CHR ''+'', CHR ''-'', CHR ''.'', CHR ''^'', CHR ''_'', CHR 0x60, CHR ''|'',
             CHR ''~''}"

definition legal_name :: "string \<Rightarrow> bool" where
  "legal_name k \<longleftrightarrow> k \<noteq> [] \<and> list_all token_char k"

text \<open>
  In UTF-8 the characters up to U+00FF are the bytes below 0x80 and the two-byte
  sequences that start with 0xC2 or 0xC3.
\<close>

fun latin1_only :: "string \<Rightarrow> bool" where
  "latin1_only [] = True"
| "latin1_only [c] = ((of_char c :: nat) < 128)"
| "latin1_only (c # d # ds) =
     (if (of_char c :: nat) < 128 then latin1_only (d # ds)
      else ((of_char c :: nat) = 194 \<or> (of_char c :: nat) = 195)
           \<and> 128 \<le> (of_char d :: nat) \<and> (of_char d :: nat) < 192 \<and> latin1_only ds)"

definition legal_value :: "string \<Rightarrow> bool" where
  "legal_value v \<longleftrightarrow>
     CHR 0x00 \<notin> set v \<and> CHR 0x0A \<notin> set v \<and> CHR 0x0D \<notin> set v \<and> latin1_only v"

definition Headers_set :: "string \<Rightarrow> string \<Rightarrow> Headers \<Rightarrow> exn + Headers" where
  "Headers_set k v hs =
     (if \<not> legal_name k then Inl (JsError ''TypeError'' ''Invalid header name'')
      else if \<not> legal_value (normalize_value v) then Inl (JsError ''TypeError'' ''Invalid header value'')
      else Inr (AList.update (lower k) (normalize_value v) hs))"

definition Headers_get :: "Headers \<Rightarrow> string \<Rightarrow> string option" where
  "Headers_get hs k = map_of hs (lower k)"

text \<open>\<open>HeadersInit\<close>: a \<open>Headers\<close> object, an array of pairs, or a record.\<close>

datatype HeadersInit =
    HHeaders Headers
  | HArray "(string \<times> string) list"
  | HRecord "(string \<times> string) list"

text \<open>
  \<open>mergeHeaders\<close> (utils.ts, lines 27 to 49). \<open>forEach_set\<close> is one of its inner
  loops, \<open>entries.forEach(([key, value]) => merged.set(key, value))\<close>, and
  \<open>mergeHeaders_from\<close> the outer loop over \<open>headersList\<close>; the first \<open>set\<close> that
  throws ends both.
\<close>

fun forEach_set :: "(string \<times> string) list \<Rightarrow> Headers \<Rightarrow> exn + Headers" where
  "forEach_set [] merged = Inr merged"
| "forEach_set (kv # kvs) merged =
     (case Headers_set (fst kv) (snd kv) merged of
        Inl x \<Rightarrow> Inl x
      | Inr m \<Rightarrow> forEach_set kvs m)"

fun mergeHeaders_from :: "HeadersInit option list \<Rightarrow> Headers \<Rightarrow> exn + Headers" where
  "mergeHeaders_from [] merged = Inr merged"
| "mergeHeaders_from (None # hl) merged = mergeHeaders_from hl merged"
| "mergeHeaders_from (Some (HHeaders h) # hl) merged =
     (case forEach_set h merged of Inl x \<Rightarrow> Inl x | Inr m \<Rightarrow> mergeHeaders_from hl m)"
| "mergeHeaders_from (Some (HArray a) # hl) merged =
     (case forEach_set a merged of Inl x \<Rightarrow> Inl x | Inr m \<Rightarrow> mergeHeaders_from hl m)"
| "mergeHeaders_from (Some (HRecord r) # hl) merged =
     (case forEach_set r merged of Inl x \<Rightarrow> Inl x | Inr m \<Rightarrow> mergeHeaders_from hl m)"

definition mergeHeaders :: "HeadersInit option list \<Rightarrow> exn + Headers" where
  "mergeHeaders headersList = mergeHeaders_from headersList []"

section \<open>utils.ts: the request body\<close>

text \<open>\<open>isPlainObject\<close> (lines 80 to 82): \<open>typeof value === 'object'\<close>, not null, not an array.\<close>

fun isPlainObject :: "jsval \<Rightarrow> bool" where
  "isPlainObject (JObj kvs) = True"
| "isPlainObject (JBlob t) = True"
| "isPlainObject JArrayBuffer = True"
| "isPlainObject (JFormData es) = True"
| "isPlainObject (JURLSearchParams es) = True"
| "isPlainObject JReadableStream = True"
| "isPlainObject v = False"

fun isArray :: "jsval \<Rightarrow> bool" where
  "isArray (JArr xs) = True"
| "isArray v = False"

fun isString :: "jsval \<Rightarrow> bool" where
  "isString (JStr s) = True"
| "isString v = False"

fun isBlob :: "jsval \<Rightarrow> bool" where
  "isBlob (JBlob t) = True"
| "isBlob v = False"

fun isFormData :: "jsval \<Rightarrow> bool" where
  "isFormData (JFormData es) = True"
| "isFormData v = False"

fun isURLSearchParams :: "jsval \<Rightarrow> bool" where
  "isURLSearchParams (JURLSearchParams es) = True"
| "isURLSearchParams v = False"

text \<open>
  \<open>serializeBody\<close> (lines 87 to 111); \<open>None\<close> is the result \<open>undefined\<close>. For an
  object or an array \<open>JSON.stringify\<close> returns a string.
\<close>

definition serializeBody :: "jsval \<Rightarrow> jsval option" where
  "serializeBody body =
     (if body = JUndefined \<or> body = JNull then None
      else if isString body \<or> isBlob body \<or> body = JArrayBuffer \<or> isFormData body
              \<or> isURLSearchParams body \<or> body = JReadableStream then Some body
      else if isPlainObject body \<or> isArray body then
        (case JSON_stringify body of None \<Rightarrow> None | Some s \<Rightarrow> Some (JStr s))
      else Some (JStr (js_String body)))"

text \<open>\<open>getContentType\<close> (lines 116 to 146); \<open>None\<close> is the result \<open>undefined\<close>.\<close>

definition getContentType :: "jsval \<Rightarrow> string option" where
  "getContentType body =
     (if body = JUndefined \<or> body = JNull then None
      else if isString body then Some ''text/plain''
      else if isFormData body then None
      else if isURLSearchParams body then Some ''application/x-www-form-urlencoded''
      else if isBlob body then
        (case body of JBlob t \<Rightarrow> Some (if t \<noteq> [] then t else ''application/octet-stream'')
                    | _ \<Rightarrow> None)
      else if body = JArrayBuffer then Some ''application/octet-stream''
      else if isPlainObject body \<or> isArray body then Some ''application/json''
      else None)"

text \<open>\<open>shouldRetry\<close> (lines 151 to 155).\<close>

definition shouldRetry :: "int \<Rightarrow> int list option \<Rightarrow> bool" where
  "shouldRetry status retryOn =
     (let defaultRetryOn = [408, 429, 500, 502, 503, 504];
          codes = (case retryOn of None \<Rightarrow> defaultRetryOn | Some c \<Rightarrow> c)
      in status \<in> set codes)"

section \<open>types.ts\<close>

text \<open>
  The transport's \<open>Response\<close>. Each body accessor is the outcome of calling it where
  \<open>performRequest\<close> calls it: the value it resolves to, or what it rejects with. A
  response of the platform lets its body be read once: when \<open>json()\<close> has failed on a
  body that is not JSON, a later \<open>text()\<close> rejects with a \<open>TypeError\<close>. The mock
  responses of the tests answer every accessor independently.
\<close>

record Response =
  ok :: bool
  status :: int
  statusText :: string
  resp_headers :: Headers
  url :: string
  json :: "exn + jsval"
  text' :: "exn + jsval"
  blob :: "exn + jsval"
  arrayBuffer :: "exn + jsval"
  formData :: "exn + jsval"

text \<open>
  \<open>FetchError\<close> (lines 481 to 497) and its subclass \<open>TimeoutError\<close> (lines 502 to 507).
  \<open>timeoutMs\<close> is present exactly on a \<open>TimeoutError\<close>; an optional constructor
  argument that is not given is \<open>None\<close> (\<open>JUndefined\<close> for \<open>data\<close>).
\<close>

record FetchError =
  message :: string
  name :: string
  err_response :: "Response option"
  err_status :: "int option"
  err_statusText :: "string option"
  err_data :: jsval
  timeoutMs :: "int option"

definition new_FetchError ::
  "string \<Rightarrow> Response option \<Rightarrow> int option \<Rightarrow> string option \<Rightarrow> jsval \<Rightarrow> FetchError" where
  "new_FetchError m r st stt d =
     \<lparr>message = m, name = ''FetchError'', err_response = r, err_status = st,
      err_statusText = stt, err_data = d, timeoutMs = None\<rparr>"

definition new_TimeoutError :: "string \<Rightarrow> int \<Rightarrow> FetchError" where
  "new_TimeoutError m ms = (new_FetchError m None None None JUndefined)
     \<lparr>name := ''TimeoutError'', timeoutMs := Some ms\<rparr>"

definition isTimeoutError :: "FetchError \<Rightarrow> bool" where
  "isTimeoutError e \<longleftrightarrow> timeoutMs e \<noteq> None"

text \<open>What a \<open>catch\<close> clause of the library can receive.\<close>

datatype thrown = TFetch FetchError | TOther exn

text \<open>\<open>FetchResponse\<close> (lines 441 to 476) and \<open>Result\<close> (lines 337 to 339).\<close>

record FetchResponse =
  fr_data :: jsval
  fr_status :: int
  fr_statusText :: string
  fr_headers :: Headers
  raw :: Response
  fr_url :: string
  fr_ok :: bool

record Result =
  success :: bool
  data :: "FetchResponse option"
  error :: "FetchError option"

datatype response_type = RT_json | RT_text | RT_blob | RT_arrayBuffer | RT_formData

fun response_type_String :: "response_type \<Rightarrow> string" where
  "response_type_String RT_json = ''json''"
| "response_type_String RT_text = ''text''"
| "response_type_String RT_blob = ''blob''"
| "response_type_String RT_arrayBuffer = ''arrayBuffer''"
| "response_type_String RT_formData = ''formData''"

text \<open>\<open>validateStatus?: boolean | ((status: number) => boolean)\<close>.\<close>

datatype validate_status = VBool bool | VFun "int \<Rightarrow> bool"

record retry_policy =
  count :: "int option"
  delay :: "int option"
  backoff :: "int option"
  retryOn :: "int list option"

text \<open>
  The request configuration. The record \<open>FetchConfig\<close> holds the properties whose
  types do not mention the configuration itself; \<open>FetcherConfig\<close> adds
  \<open>transformRequest\<close> and the three interceptors of an instance. A hook that takes a
  configuration sees it without the hooks, and what it returns is read for the
  properties of \<open>FetchConfig\<close> only, as \<open>performRequest\<close> does. An interceptor is a
  function of its argument; \<open>onError\<close> returns what it throws, if it throws (the code
  ignores its result).
\<close>

record FetchConfig =
  method' :: "string option"
  body :: "jsval option"
  params :: "(string \<times> param) list option"
  timeout :: "int option"
  baseURL :: "string option"
  headers :: "HeadersInit option"
  responseType :: "response_type option"
  parseJson :: "bool option"
  validateStatus :: "validate_status option"
  retry :: "retry_policy option"
  transformResponse :: "(Response \<Rightarrow> jsval \<Rightarrow> thrown + jsval) option"

record FetcherConfig = FetchConfig +
  transformRequest :: "(FetchConfig \<Rightarrow> thrown + FetchConfig) option"
  onRequest :: "(FetchConfig \<Rightarrow> thrown + FetchConfig) option"
  onResponse :: "(FetchResponse \<Rightarrow> thrown + FetchResponse) option"
  onError :: "(FetchError \<Rightarrow> thrown option) option"

text \<open>The object \<open>{}\<close>.\<close>

definition empty_config :: FetcherConfig where
  "empty_config =
     \<lparr>method' = None, body = None, params = None, timeout = None, baseURL = None,
      headers = None, responseType = None, parseJson = None, validateStatus = None,
      retry = None, transformResponse = None, transformRequest = None, onRequest = None,
      onResponse = None, onError = None\<rparr>"

section \<open>polyfill.ts: the state of the module\<close>

text \<open>
  The variable \<open>originalFetch\<close> and the binding \<open>globalThis.fetch\<close> (\<open>None\<close>: there
  is none). A binding is a function of the platform or the wrapper that
  \<open>polyfillFetch\<close> builds around a fetcher, which is its configuration.
\<close>

datatype fetch_binding = Native nat | Wrapper FetcherConfig

record polyfill_state =
  originalFetch :: "fetch_binding option"
  globalFetch :: "fetch_binding option"

section \<open>utils.ts: mergeConfig\<close>

text \<open>
  \<open>{...a, ...b}\<close> on one optional property: the property of \<open>b\<close> if it is present.
\<close>

definition spread_prop :: "'a option \<Rightarrow> 'a option \<Rightarrow> 'a option" where
  "spread_prop a b = (case b of None \<Rightarrow> a | Some v \<Rightarrow> Some v)"

text \<open>
  \<open>{...a, ...b}\<close> on objects given by their entries; spreading \<open>undefined\<close> adds
  nothing.
\<close>

definition object_spread :: "('k \<times> 'v) list option \<Rightarrow> ('k \<times> 'v) list \<Rightarrow> ('k \<times> 'v) list" where
  "object_spread a acc =
     (case a of None \<Rightarrow> acc | Some xs \<Rightarrow> fold (\<lambda>kv m. AList.update (fst kv) (snd kv) m) xs acc)"

definition retry_prop :: "retry_policy option \<Rightarrow> (retry_policy \<Rightarrow> 'a option) \<Rightarrow> 'a option" where
  "retry_prop r f = (case r of None \<Rightarrow> None | Some p \<Rightarrow> f p)"

definition retry_spread :: "retry_policy option \<Rightarrow> retry_policy option \<Rightarrow> retry_policy" where
  "retry_spread a b =
     \<lparr>count = spread_prop (retry_prop a count) (retry_prop b count),
      delay = spread_prop (retry_prop a delay) (retry_prop b delay),
      backoff = spread_prop (retry_prop a backoff) (retry_prop b backoff),
      retryOn = spread_prop (retry_prop a retryOn) (retry_prop b retryOn)\<rparr>"

text \<open>
  \<open>mergeConfig\<close> (utils.ts, lines 54 to 68). It throws what \<open>mergeHeaders\<close>
  throws.
\<close>

definition mergeConfig ::
  "FetcherConfig option \<Rightarrow> FetcherConfig option \<Rightarrow> exn + FetcherConfig" where
  "mergeConfig base override =
     (case base of
        None \<Rightarrow> Inr (case override of None \<Rightarrow> empty_config | Some ov \<Rightarrow> ov)
      | Some b \<Rightarrow>
          (case override of
             None \<Rightarrow> Inr b
           | Some ov \<Rightarrow>
               (case mergeHeaders [headers b, headers ov] of
                  Inl x \<Rightarrow> Inl x
                | Inr h \<Rightarrow>
                    Inr \<lparr>method' = spread_prop (method' b) (method' ov),
                         body = spread_prop (body b) (body ov),
                         params = Some (object_spread (params ov) (object_spread (params b) [])),
                         timeout = spread_prop (timeout b) (timeout ov),
                         baseURL = spread_prop (baseURL b) (baseURL ov),
                         headers = Some (HHeaders h),
                         responseType = spread_prop (responseType b) (responseType ov),
                         parseJson = spread_prop (parseJson b) (parseJson ov),
                         validateStatus = spread_prop (validateStatus b) (validateStatus ov),
                         retry = Some (retry_spread (retry b) (retry ov)),
                         transformResponse =
                           spread_prop (transformResponse b) (transformResponse ov),
                         transformRequest = spread_prop (transformRequest b) (transformRequest ov),
                         onRequest = spread_prop (onRequest b) (onRequest ov),
                         onResponse = spread_prop (onResponse b) (onResponse ov),
                         onError = spread_prop (onError b) (onError ov)\<rparr>)))"

section \<open>core.ts: one attempt\<close>

text \<open>
  The transport (\<open>fetch\<close> of cross-fetch) is a parameter: given the URL and the final
  configuration it resolves to a response or rejects. A timer that fires is the
  rejection with an \<open>Error\<close> named \<open>AbortError\<close>, which is how \<open>performRequest\<close>
  recognises it; real time is not modelled.
\<close>

type_synonym transport = "string \<Rightarrow> FetchConfig \<Rightarrow> thrown + Response"

text \<open>
  \<open>createError\<close> (core.ts, lines 308 to 318): the \<open>FetchError\<close> it returns, or the
  \<open>TypeError\<close> that \<open>String(error)\<close> throws.
\<close>

fun createError :: "thrown \<Rightarrow> thrown + FetchError" where
  "createError (TFetch e) = Inr e"
| "createError (TOther (JsError n m)) = Inr (new_FetchError m None None None JUndefined)"
| "createError (TOther (JsThrown v)) =
     (if String_throws v then Inl (TOther String_TypeError)
      else Inr (new_FetchError (js_String v) None None None JUndefined))"

text \<open>\<open>parseResponse\<close> (lines 276 to 303): whatever an accessor rejects with becomes a
  \<open>FetchError\<close> that carries the response and its status.\<close>

definition parseResponse :: "Response \<Rightarrow> FetchConfig \<Rightarrow> FetchError + jsval" where
  "parseResponse response config =
     (let responseType' = (case responseType config of None \<Rightarrow> RT_json | Some t \<Rightarrow> t);
          parseJson' = (case parseJson config of None \<Rightarrow> True | Some b \<Rightarrow> b);
          outcome =
            (case responseType' of
               RT_json \<Rightarrow> if parseJson' then json response else text' response
             | RT_text \<Rightarrow> text' response
             | RT_blob \<Rightarrow> blob response
             | RT_arrayBuffer \<Rightarrow> arrayBuffer response
             | RT_formData \<Rightarrow> formData response)
      in case outcome of
           Inr v \<Rightarrow> Inr v
         | Inl x \<Rightarrow>
             Inl (new_FetchError (''Failed to parse response as '' @ response_type_String responseType')
                    (Some response) (Some (status response)) (Some (statusText response))
                    JUndefined))"

text \<open>The validity of the status (lines 202 to 208).\<close>

definition isValid :: "FetchConfig \<Rightarrow> Response \<Rightarrow> bool" where
  "isValid finalConfig response =
     (let validateStatus' =
            (case validateStatus finalConfig of None \<Rightarrow> VBool True | Some v \<Rightarrow> v)
      in case validateStatus' of
           VFun f \<Rightarrow> f (status response)
         | VBool b \<Rightarrow> if b then ok response else True)"

text \<open>\<open>baseURL.replace(/\/$/, '')\<close> and \<open>url.replace(/^\//, '')\<close>.\<close>

definition strip_trailing_slash :: "string \<Rightarrow> string" where
  "strip_trailing_slash s = (if s \<noteq> [] \<and> last s = CHR ''/'' then butlast s else s)"

definition strip_leading_slash :: "string \<Rightarrow> string" where
  "strip_leading_slash s = (case s of [] \<Rightarrow> [] | c # cs \<Rightarrow> if c = CHR ''/'' then cs else s)"

text \<open>The \<open>try\<close> block of \<open>performRequest\<close> (lines 185 to 248).\<close>

definition performRequest_try ::
  "FetcherConfig \<Rightarrow> FetchConfig \<Rightarrow> string \<Rightarrow> transport \<Rightarrow> thrown + FetchResponse" where
  "performRequest_try self finalConfig urlWithParams fetch =
     (case fetch urlWithParams
             (finalConfig\<lparr>method' := Some (case method' finalConfig of None \<Rightarrow> ''GET'' | Some m \<Rightarrow> m)\<rparr>) of
        Inl t \<Rightarrow> Inl t
      | Inr response \<Rightarrow>
          if \<not> isValid finalConfig response then
            (case (case parseResponse response finalConfig of
                     Inr d \<Rightarrow> Inr d
                   | Inl e \<Rightarrow> text' response) of
               Inl x \<Rightarrow> Inl (TOther x)
             | Inr errorData \<Rightarrow>
                 Inl (TFetch (new_FetchError
                        (''Request failed with status '' @ string_of_int (status response))
                        (Some response) (Some (status response)) (Some (statusText response))
                        errorData)))
          else
            (case parseResponse response finalConfig of
               Inl e \<Rightarrow> Inl (TFetch e)
             | Inr d \<Rightarrow>
                 let result = \<lparr>fr_data = d, fr_status = status response,
                               fr_statusText = statusText response,
                               fr_headers = resp_headers response, raw = response,
                               fr_url = url response, fr_ok = ok response\<rparr>
                 in case (case onResponse self of None \<Rightarrow> Inr result | Some f \<Rightarrow> f result) of
                      Inl t \<Rightarrow> Inl t
                    | Inr result' \<Rightarrow>
                        (case transformResponse finalConfig of
                           None \<Rightarrow> Inr result'
                         | Some f \<Rightarrow>
                             (case f response (fr_data result') of
                                Inl t \<Rightarrow> Inl t
                              | Inr d' \<Rightarrow> Inr (result'\<lparr>fr_data := d'\<rparr>)))))"

text \<open>The \<open>catch\<close> clause of \<open>performRequest\<close> (lines 249 to 270): what it throws.\<close>

fun isAbortError :: "thrown \<Rightarrow> bool" where
  "isAbortError (TFetch e) = (name e = ''AbortError'')"
| "isAbortError (TOther (JsError n m)) = (n = ''AbortError'')"
| "isAbortError (TOther (JsThrown v)) = False"

definition performRequest_catch :: "FetchConfig \<Rightarrow> thrown \<Rightarrow> thrown" where
  "performRequest_catch finalConfig err =
     (if isAbortError err then
        TFetch (new_TimeoutError
                  (''Request timeout after ''
                     @ (case timeout finalConfig of None \<Rightarrow> ''undefined'' | Some t \<Rightarrow> string_of_int t)
                     @ ''ms'')
                  (case timeout finalConfig of None \<Rightarrow> 0 | Some t \<Rightarrow> t))
      else case err of
             TFetch e \<Rightarrow> TFetch e
           | TOther x \<Rightarrow> (case createError err of Inl t \<Rightarrow> t | Inr e \<Rightarrow> TFetch e))"

text \<open>
  \<open>performRequest\<close> (lines 149 to 271). \<open>self\<close> is \<open>this.config\<close>. \<open>mergeHeaders\<close>
  and the two request hooks run before the \<open>try\<close> block: what they throw leaves the
  function as it is.
\<close>

definition performRequest ::
  "FetcherConfig \<Rightarrow> string \<Rightarrow> FetcherConfig \<Rightarrow> transport \<Rightarrow> thrown + FetchResponse" where
  "performRequest self url' config fetch =
     (let baseURL' = (case baseURL config of None \<Rightarrow> [] | Some b \<Rightarrow> b);
          fullURL = (if baseURL' \<noteq> []
                     then strip_trailing_slash baseURL' @ ''/'' @ strip_leading_slash url'
                     else url');
          urlWithParams = buildURL fullURL (params config);
          body' = (case body config of None \<Rightarrow> JUndefined | Some b \<Rightarrow> b);
          serializedBody = serializeBody body';
          contentType = getContentType body';
          merged = mergeHeaders
            [case contentType of
               None \<Rightarrow> None
             | Some ct \<Rightarrow> if ct \<noteq> [] then Some (HRecord [(''Content-Type'', ct)]) else None,
             headers config]
      in case merged of
           Inl x \<Rightarrow> Inl (TOther x)
         | Inr headers' \<Rightarrow>
             let finalConfig0 = (FetchConfig.truncate config)
                   \<lparr>body := Some (case serializedBody of None \<Rightarrow> JUndefined | Some b \<Rightarrow> b),
                    headers := Some (HHeaders headers')\<rparr>
             in case (case onRequest self of None \<Rightarrow> Inr finalConfig0 | Some f \<Rightarrow> f finalConfig0) of
                  Inl t \<Rightarrow> Inl t
                | Inr finalConfig1 \<Rightarrow>
                    (case (case transformRequest config of
                             None \<Rightarrow> Inr finalConfig1
                           | Some f \<Rightarrow> f finalConfig1) of
                       Inl t \<Rightarrow> Inl t
                     | Inr finalConfig \<Rightarrow>
                         (case performRequest_try self finalConfig urlWithParams fetch of
                            Inr result \<Rightarrow> Inr result
                          | Inl err \<Rightarrow> Inl (performRequest_catch finalConfig err))))"

section \<open>core.ts: retries\<close>

text \<open>
  What \<open>executeRequest\<close> does besides returning: the attempts it makes, by index,
  and the delays it sleeps, in order.
\<close>

datatype event = Attempt nat | Sleep int

text \<open>\<open>error instanceof FetchErrorClass && error.status\<close>: the status, when it is truthy.\<close>

fun truthy_status :: "thrown \<Rightarrow> int option" where
  "truthy_status (TFetch e) =
     (case err_status e of None \<Rightarrow> None | Some s \<Rightarrow> if s \<noteq> 0 then Some s else None)"
| "truthy_status (TOther x) = None"

text \<open>
  The loop of \<open>executeRequest\<close> (lines 116 to 143), from attempt \<open>attempt\<close> on, with
  the accumulator \<open>lastError\<close>; \<open>net attempt\<close> is the transport as it behaves during
  that attempt. After the loop \<open>throw lastError\<close> throws \<open>undefined\<close> when nothing was
  caught.
\<close>

function executeRequest_loop ::
  "FetcherConfig \<Rightarrow> string \<Rightarrow> FetcherConfig \<Rightarrow> (nat \<Rightarrow> transport) \<Rightarrow> int \<Rightarrow> nat
     \<Rightarrow> thrown option \<Rightarrow> event list \<times> (thrown + FetchResponse)" where
  "executeRequest_loop self url' mergedConfig net retryCount attempt lastError =
     (if int attempt \<le> retryCount then
        (case performRequest self url' mergedConfig (net attempt) of
           Inr r \<Rightarrow> ([Attempt attempt], Inr r)
         | Inl err \<Rightarrow>
             if int attempt = retryCount then ([Attempt attempt], Inl err)
             else if (case truthy_status err of
                        None \<Rightarrow> False
                      | Some s \<Rightarrow> \<not> shouldRetry s (retry_prop (retry mergedConfig) retryOn))
             then ([Attempt attempt], Inl err)
             else
               let baseDelay = (case retry_prop (retry mergedConfig) delay of
                                  None \<Rightarrow> 1000 | Some d \<Rightarrow> d);
                   backoff' = (case retry_prop (retry mergedConfig) backoff of
                                 None \<Rightarrow> 1 | Some b \<Rightarrow> b);
                   delay' = baseDelay * backoff' ^ attempt;
                   rest = executeRequest_loop self url' mergedConfig net retryCount
                            (Suc attempt) (Some err)
               in (Attempt attempt # Sleep delay' # fst rest, snd rest))
      else ([], Inl (case lastError of None \<Rightarrow> TOther (JsThrown JUndefined) | Some e \<Rightarrow> e)))"
  by pat_completeness auto
termination
  by (relation "measure (\<lambda>(self, u, m, net, retryCount, attempt, lastError).
                           nat (retryCount + 1 - int attempt))") auto

declare executeRequest_loop.simps [simp del]

text \<open>\<open>executeRequest\<close> (lines 108 to 144). What \<open>mergeConfig\<close> throws leaves it
  before any attempt.\<close>

definition executeRequest ::
  "FetcherConfig \<Rightarrow> string \<Rightarrow> FetcherConfig option \<Rightarrow> (nat \<Rightarrow> transport)
     \<Rightarrow> event list \<times> (thrown + FetchResponse)" where
  "executeRequest self url' config net =
     (case mergeConfig (Some self) config of
        Inl x \<Rightarrow> ([], Inl (TOther x))
      | Inr mergedConfig \<Rightarrow>
          let retryCount = (case retry_prop (retry mergedConfig) count of None \<Rightarrow> 0 | Some c \<Rightarrow> c)
          in executeRequest_loop self url' mergedConfig net retryCount 0 None)"

section \<open>core.ts: the public operations\<close>

text \<open>
  \<open>request\<close> (lines 33 to 50): the events of the call, and either what it throws or
  the \<open>Result\<close> it resolves to. Its \<open>catch\<close> clause throws what \<open>createError\<close> or
  \<open>onError\<close> throws.
\<close>

definition request ::
  "FetcherConfig \<Rightarrow> string \<Rightarrow> FetcherConfig option \<Rightarrow> (nat \<Rightarrow> transport)
     \<Rightarrow> event list \<times> (thrown + Result)" where
  "request self url' config net =
     (case executeRequest self url' config net of
        (evs, Inr response') \<Rightarrow> (evs, Inr \<lparr>success = True, data = Some response', error = None\<rparr>)
      | (evs, Inl err) \<Rightarrow>
          (case (case err of TFetch e \<Rightarrow> Inr e | TOther x \<Rightarrow> createError err) of
             Inl t \<Rightarrow> (evs, Inl t)
           | Inr fetchError \<Rightarrow>
               (case (case onError self of None \<Rightarrow> None | Some f \<Rightarrow> f fetchError) of
                  Some t \<Rightarrow> (evs, Inl t)
                | None \<Rightarrow> (evs, Inr \<lparr>success = False, data = None, error = Some fetchError\<rparr>))))"

text \<open>The wrappers (lines 55 to 103): \<open>{ ...config, method: 'GET' }\<close> and so on.\<close>

definition config_or_empty :: "FetcherConfig option \<Rightarrow> FetcherConfig" where
  "config_or_empty config = (case config of None \<Rightarrow> empty_config | Some c \<Rightarrow> c)"

definition get ::
  "FetcherConfig \<Rightarrow> string \<Rightarrow> FetcherConfig option \<Rightarrow> (nat \<Rightarrow> transport)
     \<Rightarrow> event list \<times> (thrown + Result)" where
  "get self url' config net =
     request self url' (Some ((config_or_empty config)\<lparr>method' := Some ''GET''\<rparr>)) net"

definition post ::
  "FetcherConfig \<Rightarrow> string \<Rightarrow> jsval \<Rightarrow> FetcherConfig option \<Rightarrow> (nat \<Rightarrow> transport)
     \<Rightarrow> event list \<times> (thrown + Result)" where
  "post self url' b config net =
     request self url' (Some ((config_or_empty config)\<lparr>method' := Some ''POST'', body := Some b\<rparr>)) net"

definition put ::
  "FetcherConfig \<Rightarrow> string \<Rightarrow> jsval \<Rightarrow> FetcherConfig option \<Rightarrow> (nat \<Rightarrow> transport)
     \<Rightarrow> event list \<times> (thrown + Result)" where
  "put self url' b config net =
     request self url' (Some ((config_or_empty config)\<lparr>method' := Some ''PUT'', body := Some b\<rparr>)) net"

definition patch ::
  "FetcherConfig \<Rightarrow> string \<Rightarrow> jsval \<Rightarrow> FetcherConfig option \<Rightarrow> (nat \<Rightarrow> transport)
     \<Rightarrow> event list \<times> (thrown + Result)" where
  "patch self url' b config net =
     request self url' (Some ((config_or_empty config)\<lparr>method' := Some ''PATCH'', body := Some b\<rparr>)) net"

definition delete ::
  "FetcherConfig \<Rightarrow> string \<Rightarrow> FetcherConfig option \<Rightarrow> (nat \<Rightarrow> transport)
     \<Rightarrow> event list \<times> (thrown + Result)" where
  "delete self url' config net =
     request self url' (Some ((config_or_empty config)\<lparr>method' := Some ''DELETE''\<rparr>)) net"

text \<open>\<open>extend\<close> (lines 323 to 325) and \<open>createFetch\<close> (lines 331 to 333); a \<open>Fetcher\<close>
  is its configuration, and \<open>extend\<close> throws what \<open>mergeConfig\<close> throws.\<close>

definition extend :: "FetcherConfig \<Rightarrow> FetcherConfig \<Rightarrow> exn + FetcherConfig" where
  "extend self config = mergeConfig (Some self) (Some config)"

definition createFetch :: "FetcherConfig option \<Rightarrow> FetcherConfig" where
  "createFetch config = config_or_empty config"

section \<open>polyfill.ts\<close>

definition hasFetch :: "polyfill_state \<Rightarrow> bool" where
  "hasFetch st \<longleftrightarrow> globalFetch st \<noteq> None"

text \<open>\<open>polyfillFetch\<close> (lines 73 to 111): the value returned and the state after.\<close>

definition polyfillFetch :: "FetcherConfig option \<Rightarrow> polyfill_state \<Rightarrow> bool \<times> polyfill_state" where
  "polyfillFetch config st =
     (let st1 = (if originalFetch st = None \<and> hasFetch st
                 then st\<lparr>originalFetch := globalFetch st\<rparr> else st);
          fetcher = createFetch config
      in (True, st1\<lparr>globalFetch := Some (Wrapper fetcher)\<rparr>))"

text \<open>\<open>restoreFetch\<close> (lines 125 to 137).\<close>

definition restoreFetch :: "polyfill_state \<Rightarrow> bool \<times> polyfill_state" where
  "restoreFetch st =
     (case originalFetch st of
        None \<Rightarrow> (False, if globalFetch st \<noteq> None then st\<lparr>globalFetch := None\<rparr> else st)
      | Some f \<Rightarrow> (True, st\<lparr>globalFetch := Some f, originalFetch := None\<rparr>))"

text \<open>\<open>isPolyfilled\<close> (lines 144 to 146).\<close>

definition isPolyfilled :: "polyfill_state \<Rightarrow> bool" where
  "isPolyfilled st \<longleftrightarrow> originalFetch st \<noteq> None"

section \<open>Concrete inputs\<close>

text \<open>
  The response of the test "should return error for failed request" (a mock: the
  accessors it does not define fail when called), transports that answer every
  attempt alike, and configurations.
\<close>

definition resp_404 :: Response where
  "resp_404 =
     \<lparr>ok = False, status = 404, statusText = ''Not Found'', resp_headers = [],
      url = ''https://api.example.com/users/999'',
      json = Inr (JObj [(''error'', JStr ''User not found'')]),
      text' = Inr (JStr ''User not found''),
      blob = Inl (JsError ''TypeError'' ''response.blob is not a function''),
      arrayBuffer = Inl (JsError ''TypeError'' ''response.arrayBuffer is not a function''),
      formData = Inl (JsError ''TypeError'' ''response.formData is not a function'')\<rparr>"

text \<open>
  A response of the platform with status 404 and an HTML body, read with the default
  \<open>responseType\<close>: \<open>json()\<close> fails on the body and has read it, so \<open>text()\<close> rejects.
\<close>

definition resp_html404 :: Response where
  "resp_html404 =
     \<lparr>ok = False, status = 404, statusText = ''Not Found'', resp_headers = [],
      url = ''https://api.example.com/missing'',
      json = Inl (JsError ''SyntaxError'' ''Unexpected token < in JSON at position 0''),
      text' = Inl (JsError ''TypeError'' ''Body is unusable: Body has already been read''),
      blob = Inl (JsError ''TypeError'' ''Body is unusable: Body has already been read''),
      arrayBuffer = Inl (JsError ''TypeError'' ''Body is unusable: Body has already been read''),
      formData = Inl (JsError ''TypeError'' ''Body is unusable: Body has already been read'')\<rparr>"

definition net_html404 :: "nat \<Rightarrow> transport" where
  "net_html404 = (\<lambda>i u c. Inr resp_html404)"

definition resp_200 :: Response where
  "resp_200 =
     \<lparr>ok = True, status = 200, statusText = ''OK'', resp_headers = [],
      url = ''https://api.example.com/users'',
      json = Inr (JObj [(''name'', JStr ''John'')]),
      text' = Inl (JsError ''TypeError'' ''response.text is not a function''),
      blob = Inl (JsError ''TypeError'' ''response.blob is not a function''),
      arrayBuffer = Inl (JsError ''TypeError'' ''response.arrayBuffer is not a function''),
      formData = Inl (JsError ''TypeError'' ''response.formData is not a function'')\<rparr>"

definition net_200 :: "nat \<Rightarrow> transport" where
  "net_200 = (\<lambda>i u c. Inr resp_200)"

text \<open>A thrown object that has no conversion to a string: \<open>throw { toString: null }\<close>.\<close>

definition no_string_object :: jsval where
  "no_string_object = JObj [(''toString'', JNull)]"

definition self_onRequest_throws_object :: FetcherConfig where
  "self_onRequest_throws_object = empty_config
     \<lparr>onRequest := Some (\<lambda>c. Inl (TOther (JsThrown no_string_object)))\<rparr>"

definition self_onResponse_throws_object :: FetcherConfig where
  "self_onResponse_throws_object = empty_config
     \<lparr>onResponse := Some (\<lambda>r. Inl (TOther (JsThrown no_string_object)))\<rparr>"

text \<open>An instance and an override for \<open>extend\<close>.\<close>

definition self_api :: FetcherConfig where
  "self_api = empty_config
     \<lparr>params := Some [(''page'', PNum 1)],
      timeout := Some 5000,
      baseURL := Some ''https://api.example.com'',
      headers := Some (HRecord [(''Authorization'', ''Bearer token''), (''Accept'', ''text/html'')]),
      retry := Some \<lparr>count = Some 3, delay = Some 1000, backoff = None, retryOn = None\<rparr>\<rparr>"

definition cfg_override :: FetcherConfig where
  "cfg_override = empty_config
     \<lparr>params := Some [(''limit'', PNum 10)],
      timeout := Some 100,
      headers := Some (HArray [(''accept'', '' application/json '')]),
      retry := Some \<lparr>count = None, delay = None, backoff = Some 2, retryOn = None\<rparr>\<rparr>"

definition cfg_bad_header :: FetcherConfig where
  "cfg_bad_header = empty_config\<lparr>headers := Some (HRecord [(''X Custom'', ''1'')])\<rparr>"

definition net_404 :: "nat \<Rightarrow> transport" where
  "net_404 = (\<lambda>i u c. Inr resp_404)"

definition net_abort :: "nat \<Rightarrow> transport" where
  "net_abort = (\<lambda>i u c. Inl (TOther (JsError ''AbortError'' ''The operation was aborted'')))"

definition net_down :: "nat \<Rightarrow> transport" where
  "net_down = (\<lambda>i u c. Inl (TOther (JsError ''TypeError'' ''Network error'')))"

definition cfg_retry2 :: FetcherConfig where
  "cfg_retry2 = empty_config
     \<lparr>timeout := Some 100,
      retry := Some \<lparr>count = Some 2, delay = Some 1000, backoff = Some 2, retryOn = None\<rparr>\<rparr>"

definition cfg_retry3 :: FetcherConfig where
  "cfg_retry3 = empty_config
     \<lparr>retry := Some \<lparr>count = Some 3, delay = None, backoff = None, retryOn = None\<rparr>\<rparr>"


definition cfg_negative :: FetcherConfig where
  "cfg_negative = empty_config
     \<lparr>retry := Some \<lparr>count = Some (- 1), delay = None, backoff = None, retryOn = None\<rparr>\<rparr>"

definition self_onError_throws :: FetcherConfig where
  "self_onError_throws = empty_config
     \<lparr>onError := Some (\<lambda>e. Some (TOther (JsError ''Error'' ''interceptor failed'')))\<rparr>"

definition cfg_validate_false :: FetchConfig where
  "cfg_validate_false = FetchConfig.truncate (empty_config\<lparr>validateStatus := Some (VBool False)\<rparr>)"

definition network_failure :: Result where
  "network_failure =
     \<lparr>success = False, data = None,
      error = Some (new_FetchError ''Network error'' None None None JUndefined)\<rparr>"

definition no_global_fetch :: polyfill_state where
  "no_global_fetch = \<lparr>originalFetch = None, globalFetch = None\<rparr>"

section \<open>Reading a configuration\<close>

text \<open>
  \<open>obj[k]\<close> for an object given by its entries (were a key written twice, the later
  entry counts).
\<close>

definition entries_get :: "('k \<times> 'v) list option \<Rightarrow> 'k \<Rightarrow> 'v option" where
  "entries_get obj k = (case obj of None \<Rightarrow> None | Some xs \<Rightarrow> map_of (rev xs) k)"

text \<open>
  The value that a \<open>HeadersInit\<close> gives to a header name: that of its last entry
  whose name is the given one up to case, without the whitespace around it. This is
  written down from the entries alone, not from \<open>mergeHeaders\<close>.
\<close>

fun last_entry :: "(string \<times> string) list \<Rightarrow> string \<Rightarrow> string option" where
  "last_entry [] k = None"
| "last_entry (kv # kvs) k =
     (case last_entry kvs k of
        Some v \<Rightarrow> Some v
      | None \<Rightarrow> if lower (fst kv) = lower k then Some (normalize_value (snd kv)) else None)"

fun init_entries :: "HeadersInit option \<Rightarrow> (string \<times> string) list" where
  "init_entries None = []"
| "init_entries (Some (HHeaders h)) = h"
| "init_entries (Some (HArray a)) = a"
| "init_entries (Some (HRecord r)) = r"

definition init_get :: "HeadersInit option \<Rightarrow> string \<Rightarrow> string option" where
  "init_get h k = last_entry (init_entries h) k"

text \<open>Every name and every value of a \<open>HeadersInit\<close> is one that \<open>Headers\<close> accepts.\<close>

definition legal_init :: "HeadersInit option \<Rightarrow> bool" where
  "legal_init h \<longleftrightarrow>
     list_all (\<lambda>kv. legal_name (fst kv) \<and> legal_value (normalize_value (snd kv))) (init_entries h)"

section \<open>Query strings\<close>

lemma fold_USP_append:
  "fold (\<lambda>kv sp. if snd kv \<noteq> PUndefined \<and> snd kv \<noteq> PNull
                  then USP_append (fst kv) (param_String (snd kv)) sp else sp) ps acc
     = acc @ map (\<lambda>kv. (fst kv, param_String (snd kv)))
               (filter (\<lambda>kv. snd kv \<noteq> PUndefined \<and> snd kv \<noteq> PNull) ps)"
  by (induction ps arbitrary: acc) (simp_all add: USP_append_def)

lemma join_eq_Nil:
  "join sep xs = [] \<Longrightarrow> xs \<noteq> [] \<Longrightarrow> [] \<in> set xs"
  by (induction sep xs rule: join.induct) auto

lemma USP_toString_eq_Nil: "USP_toString sp = [] \<longleftrightarrow> sp = []"
proof
  assume h: "USP_toString sp = []"
  show "sp = []"
  proof (rule ccontr)
    assume "sp \<noteq> []"
    with h have "[] \<in> set (map (\<lambda>kv. urlencode (fst kv) @ ''='' @ urlencode (snd kv)) sp)"
      unfolding USP_toString_def by (intro join_eq_Nil) auto
    then show False by auto
  qed
next
  assume "sp = []"
  then show "USP_toString sp = []" by (simp add: USP_toString_def)
qed

lemma urlencode_a_1: "urlencode ''a'' = ''a''" "urlencode (string_of_int 1) = ''1''"
  by (simp_all add: urlencode_def urlencode_char_def urlencode_keep_def string_of_int_def
        string_of_nat.simps digit_char_def)

text \<open>
  C8. \<open>buildURL\<close> leaves out every parameter whose value is \<open>null\<close> or \<open>undefined\<close>,
  turns the values that remain into strings, and appends the query (the pairs
  \<open>key=value\<close>, form-urlencoded and joined by \<open>&\<close>) after \<open>&\<close> when the URL
  contains a \<open>?\<close> and after \<open>?\<close> otherwise; when no parameter remains (or no parameter
  map is given) there is no query and the URL is returned as it is. With
  \<open>{a:1, b:null, c:undefined}\<close> only \<open>a=1\<close> is appended, and
  \<open>buildURL("u?x=1", {a:1})\<close> is \<open>"u?x=1&a=1"\<close>.
\<close>

theorem buildURL_omits_null_and_appends:
  "buildURL u None = u
   \<and> buildURL u (Some ps) =
       (let kept = filter (\<lambda>kv. snd kv \<noteq> PUndefined \<and> snd kv \<noteq> PNull) ps
        in if kept = [] then u
           else u @ (if CHR ''?'' \<in> set u then ''&'' else ''?'')
                  @ join ''&'' (map (\<lambda>kv. urlencode (fst kv) @ ''=''
                                          @ urlencode (param_String (snd kv))) kept))
   \<and> buildURL u (Some [(''a'', PNum 1), (''b'', PNull), (''c'', PUndefined)])
       = u @ (if CHR ''?'' \<in> set u then ''&'' else ''?'') @ ''a=1''
   \<and> buildURL ''u?x=1'' (Some [(''a'', PNum 1)]) = ''u?x=1&a=1''"
proof (intro conjI)
  show "buildURL u None = u" by (simp add: buildURL_def)
next
  show "buildURL u (Some ps) =
       (let kept = filter (\<lambda>kv. snd kv \<noteq> PUndefined \<and> snd kv \<noteq> PNull) ps
        in if kept = [] then u
           else u @ (if CHR ''?'' \<in> set u then ''&'' else ''?'')
                  @ join ''&'' (map (\<lambda>kv. urlencode (fst kv) @ ''=''
                                          @ urlencode (param_String (snd kv))) kept))"
    by (simp add: buildURL_def fold_USP_append USP_toString_eq_Nil Let_def)
       (simp add: USP_toString_def comp_def)
next
  show "buildURL u (Some [(''a'', PNum 1), (''b'', PNull), (''c'', PUndefined)])
       = u @ (if CHR ''?'' \<in> set u then ''&'' else ''?'') @ ''a=1''"
    by (simp add: buildURL_def USP_append_def USP_toString_def urlencode_a_1)
next
  show "buildURL ''u?x=1'' (Some [(''a'', PNum 1)]) = ''u?x=1&a=1''"
    by (simp add: buildURL_def USP_append_def USP_toString_def urlencode_a_1)
qed

section \<open>The request body\<close>

text \<open>
  C7. The plain object \<open>{name:"John"}\<close> serializes to the string \<open>{"name":"John"}\<close>
  and its derived Content-Type is \<open>application/json\<close>; a string body passes through
  unchanged with \<open>text/plain\<close>; a FormData body passes through unchanged with no
  derived Content-Type; \<open>null\<close> and \<open>undefined\<close> give no body and no Content-Type.
\<close>

theorem serializeBody_getContentType_by_shape:
  \<open>serializeBody (JObj [(''name'', JStr ''John'')]) = Some (JStr ''{"name":"John"}'')
   \<and> getContentType (JObj [(''name'', JStr ''John'')]) = Some ''application/json''
   \<and> serializeBody (JStr s) = Some (JStr s)
   \<and> getContentType (JStr s) = Some ''text/plain''
   \<and> serializeBody (JFormData es) = Some (JFormData es)
   \<and> getContentType (JFormData es) = None
   \<and> serializeBody JNull = None \<and> getContentType JNull = None
   \<and> serializeBody JUndefined = None \<and> getContentType JUndefined = None\<close>
  by (simp add: serializeBody_def getContentType_def json_quote_def json_escape_char_def)

section \<open>Merging configurations\<close>

lemma forEach_set_get:
  "forEach_set xs acc = Inr m \<Longrightarrow>
     map_of m (lower k) =
       (case last_entry xs k of Some v \<Rightarrow> Some v | None \<Rightarrow> map_of acc (lower k))"
proof (induction xs arbitrary: acc)
  case Nil
  then show ?case by simp
next
  case (Cons kv kvs)
  from Cons.prems obtain acc' where
    s: "Headers_set (fst kv) (snd kv) acc = Inr acc'" and r: "forEach_set kvs acc' = Inr m"
    by (auto split: sum.splits)
  from s have a: "acc' = AList.update (lower (fst kv)) (normalize_value (snd kv)) acc"
    by (auto simp: Headers_set_def split: if_splits)
  show ?case
    using Cons.IH [OF r] by (auto simp: a update_conv' split: option.splits)
qed

lemma forEach_set_legal:
  "list_all (\<lambda>kv. legal_name (fst kv) \<and> legal_value (normalize_value (snd kv))) xs \<Longrightarrow>
     \<exists>m. forEach_set xs acc = Inr m"
  by (induction xs arbitrary: acc) (auto simp: Headers_set_def)

lemma mergeHeaders_from_Cons:
  "mergeHeaders_from (h # hl) acc =
     (case forEach_set (init_entries h) acc of
        Inl x \<Rightarrow> Inl x
      | Inr m \<Rightarrow> mergeHeaders_from hl m)"
proof (cases h)
  case None
  then show ?thesis by simp
next
  case (Some i)
  then show ?thesis by (cases i) simp_all
qed

lemma mergeHeaders_two:
  assumes "mergeHeaders [a, b] = Inr h"
  shows "Headers_get h k =
           (case init_get b k of Some v \<Rightarrow> Some v | None \<Rightarrow> init_get a k)"
proof -
  from assms obtain m1 where
    1: "forEach_set (init_entries a) [] = Inr m1" and 2: "forEach_set (init_entries b) m1 = Inr h"
    by (auto simp: mergeHeaders_def mergeHeaders_from_Cons split: sum.splits)
  show ?thesis
    unfolding Headers_get_def init_get_def
    by (simp add: forEach_set_get [OF 2] forEach_set_get [OF 1] split: option.splits)
qed

lemma mergeHeaders_two_legal:
  assumes "legal_init a" and "legal_init b"
  shows "\<exists>h. mergeHeaders [a, b] = Inr h"
proof -
  from assms(1) obtain m1 where 1: "forEach_set (init_entries a) [] = Inr m1"
    unfolding legal_init_def using forEach_set_legal by blast
  from assms(2) obtain h where 2: "forEach_set (init_entries b) m1 = Inr h"
    unfolding legal_init_def using forEach_set_legal by blast
  show ?thesis by (simp add: mergeHeaders_def mergeHeaders_from_Cons 1 2)
qed

lemma map_of_fold_update:
  "map_of (fold (\<lambda>kv m. AList.update (fst kv) (snd kv) m) xs acc) k =
     (case map_of (rev xs) k of Some v \<Rightarrow> Some v | None \<Rightarrow> map_of acc k)"
  by (induction xs rule: rev_induct) (simp_all add: update_conv')

lemma object_spread_two:
  "map_of (object_spread b (object_spread a [])) k =
     (case entries_get b k of Some v \<Rightarrow> Some v | None \<Rightarrow> entries_get a k)"
  by (cases a; cases b)
     (simp_all add: object_spread_def entries_get_def map_of_fold_update split: option.splits)

text \<open>
  Against C6 as stated: \<open>extend\<close> does not produce a configuration for every
  override. With the header name \<open>X Custom\<close>, which is not a token, \<open>Headers.set\<close>
  throws and so does \<open>extend\<close>.
\<close>

theorem extend_throws_on_illegal_header_name:
  "extend empty_config cfg_bad_header = Inl (JsError ''TypeError'' ''Invalid header name'')"
  by (simp add: extend_def mergeConfig_def mergeHeaders_def empty_config_def cfg_bad_header_def
        Headers_set_def legal_name_def token_char_def)

text \<open>
  C6, amended. When \<open>Headers\<close> accepts every header name and value of the instance
  and of the override (\<open>extend\<close> throws the \<open>TypeError\<close> of \<open>Headers.set\<close> otherwise),
  \<open>extend\<close> (through \<open>mergeConfig\<close>) gives a configuration in which
  \<^item> the headers are those of the instance and of the override merged by name: a
    name has the value the override gives it if the override gives it one, and the
    value the instance gives it otherwise (names up to case, values without the
    whitespace around them);
  \<^item> the query parameters are merged by key in the same way;
  \<^item> the retry policy is merged property by property;
  \<^item> every other property is the override's when the override has it and the
    instance's, unchanged, when it has not: no setting of the instance is dropped.
\<close>

theorem extend_merges_without_discarding:
  assumes "legal_init (headers self)" and "legal_init (headers config)"
  shows "\<exists>m h ps.
     extend self config = Inr m
   \<and> headers m = Some (HHeaders h)
   \<and> (\<forall>k. Headers_get h k =
            (case init_get (headers config) k of
               Some v \<Rightarrow> Some v
             | None \<Rightarrow> init_get (headers self) k))
   \<and> params m = Some ps
   \<and> (\<forall>k. map_of ps k =
            (case entries_get (params config) k of
               Some v \<Rightarrow> Some v
             | None \<Rightarrow> entries_get (params self) k))
   \<and> retry m =
        Some \<lparr>count = spread_prop (retry_prop (retry self) count) (retry_prop (retry config) count),
              delay = spread_prop (retry_prop (retry self) delay) (retry_prop (retry config) delay),
              backoff = spread_prop (retry_prop (retry self) backoff) (retry_prop (retry config) backoff),
              retryOn = spread_prop (retry_prop (retry self) retryOn) (retry_prop (retry config) retryOn)\<rparr>
   \<and> method' m = spread_prop (method' self) (method' config)
   \<and> body m = spread_prop (body self) (body config)
   \<and> timeout m = spread_prop (timeout self) (timeout config)
   \<and> baseURL m = spread_prop (baseURL self) (baseURL config)
   \<and> responseType m = spread_prop (responseType self) (responseType config)
   \<and> parseJson m = spread_prop (parseJson self) (parseJson config)
   \<and> validateStatus m = spread_prop (validateStatus self) (validateStatus config)
   \<and> transformResponse m = spread_prop (transformResponse self) (transformResponse config)
   \<and> transformRequest m = spread_prop (transformRequest self) (transformRequest config)
   \<and> onRequest m = spread_prop (onRequest self) (onRequest config)
   \<and> onResponse m = spread_prop (onResponse self) (onResponse config)
   \<and> onError m = spread_prop (onError self) (onError config)
   \<and> (\<forall>a b. spread_prop a b = (case b of None \<Rightarrow> a | Some v \<Rightarrow> Some v))"
proof -
  from mergeHeaders_two_legal [OF assms] obtain h where
    h: "mergeHeaders [headers self, headers config] = Inr h" by blast
  have g: "\<forall>k. Headers_get h k =
            (case init_get (headers config) k of
               Some v \<Rightarrow> Some v
             | None \<Rightarrow> init_get (headers self) k)"
    using mergeHeaders_two [OF h] by blast
  have s: "\<forall>a b. spread_prop a b = (case b of None \<Rightarrow> a | Some v \<Rightarrow> Some v)"
    by (simp add: spread_prop_def)
  show ?thesis
    unfolding extend_def mergeConfig_def
    using g s by (simp add: h retry_spread_def object_spread_two)
qed

theorem extend_merges_without_discarding_witness:
  "legal_init (headers self_api) \<and> legal_init (headers cfg_override)
   \<and> (\<exists>m h. extend self_api cfg_override = Inr m
          \<and> headers m = Some (HHeaders h)
          \<and> Headers_get h ''Accept'' = Some ''application/json''
          \<and> Headers_get h ''AUTHORIZATION'' = Some ''Bearer token''
          \<and> timeout m = Some 100
          \<and> baseURL m = Some ''https://api.example.com''
          \<and> retry m = Some \<lparr>count = Some 3, delay = Some 1000, backoff = Some 2, retryOn = None\<rparr>)"
proof -
  have n: "normalize_value '' application/json '' = ''application/json''"
          "normalize_value ''text/html'' = ''text/html''"
          "normalize_value ''Bearer token'' = ''Bearer token''"
    by (simp_all add: normalize_value_def http_whitespace_def)
  have l: "legal_init (headers self_api)" "legal_init (headers cfg_override)"
    by (simp_all add: self_api_def cfg_override_def empty_config_def legal_init_def legal_name_def
          legal_value_def token_char_def n)
  have i: "init_get (headers cfg_override) ''Accept'' = Some ''application/json''"
          "init_get (headers cfg_override) ''AUTHORIZATION'' = None"
          "init_get (headers self_api) ''AUTHORIZATION'' = Some ''Bearer token''"
    by (simp_all add: self_api_def cfg_override_def empty_config_def init_get_def lower_def
          lower_char_def n)
  have f: "timeout cfg_override = Some 100" "baseURL cfg_override = None"
          "baseURL self_api = Some ''https://api.example.com''"
          "retry self_api = Some \<lparr>count = Some 3, delay = Some 1000, backoff = None, retryOn = None\<rparr>"
          "retry cfg_override = Some \<lparr>count = None, delay = None, backoff = Some 2, retryOn = None\<rparr>"
    by (simp_all add: self_api_def cfg_override_def empty_config_def)
  from extend_merges_without_discarding [OF l] obtain m h where
    "extend self_api cfg_override = Inr m" "headers m = Some (HHeaders h)"
    "\<forall>k. Headers_get h k =
            (case init_get (headers cfg_override) k of
               Some v \<Rightarrow> Some v
             | None \<Rightarrow> init_get (headers self_api) k)"
    "timeout m = spread_prop (timeout self_api) (timeout cfg_override)"
    "baseURL m = spread_prop (baseURL self_api) (baseURL cfg_override)"
    "retry m =
        Some \<lparr>count = spread_prop (retry_prop (retry self_api) count) (retry_prop (retry cfg_override) count),
              delay = spread_prop (retry_prop (retry self_api) delay) (retry_prop (retry cfg_override) delay),
              backoff = spread_prop (retry_prop (retry self_api) backoff) (retry_prop (retry cfg_override) backoff),
              retryOn = spread_prop (retry_prop (retry self_api) retryOn) (retry_prop (retry cfg_override) retryOn)\<rparr>"
    by blast
  then show ?thesis
    using l by (simp add: i f spread_prop_def retry_prop_def)
qed

section \<open>The validity of a status\<close>

text \<open>
  Against C5 as stated: with \<open>validateStatus: false\<close> the verdict is not the
  boolean itself. A response with status 404, whose \<open>ok\<close> flag is false, is valid.
\<close>

theorem validateStatus_false_accepts_404:
  "validateStatus cfg_validate_false = Some (VBool False)
   \<and> \<not> ok resp_404
   \<and> isValid cfg_validate_false resp_404"
  by (simp add: cfg_validate_false_def empty_config_def FetchConfig.truncate_def isValid_def
        resp_404_def)

text \<open>
  C5, amended. If \<open>validateStatus\<close> is a function, the validity of a response is
  \<open>validateStatus(status)\<close>; if it is \<open>true\<close> or unset, the validity is the
  transport's \<open>ok\<close> flag; if it is \<open>false\<close>, every status is valid (the
  validation is switched off).
\<close>

theorem isValid_by_validateStatus:
  "isValid (cfg\<lparr>validateStatus := Some (VFun f)\<rparr>) r = f (status r)
   \<and> isValid (cfg\<lparr>validateStatus := Some (VBool True)\<rparr>) r = ok r
   \<and> isValid (cfg\<lparr>validateStatus := Some (VBool False)\<rparr>) r = True
   \<and> isValid (cfg\<lparr>validateStatus := None\<rparr>) r = ok r"
  by (simp add: isValid_def)

section \<open>The retry loop\<close>

lemma loop_past_budget:
  "\<not> int attempt \<le> retryCount \<Longrightarrow>
     executeRequest_loop self u m net retryCount attempt lastError
       = ([], Inl (case lastError of None \<Rightarrow> TOther (JsThrown JUndefined) | Some e \<Rightarrow> e))"
  by (simp add: executeRequest_loop.simps)

lemma loop_last_attempt:
  "int attempt = retryCount \<Longrightarrow> performRequest self u m (net attempt) = Inl err \<Longrightarrow>
     executeRequest_loop self u m net retryCount attempt lastError = ([Attempt attempt], Inl err)"
  by (simp add: executeRequest_loop.simps)

lemma loop_fail_fast:
  "int attempt \<le> retryCount \<Longrightarrow> performRequest self u m (net attempt) = Inl err \<Longrightarrow>
   truthy_status err = Some s \<Longrightarrow> \<not> shouldRetry s (retry_prop (retry m) retryOn) \<Longrightarrow>
     executeRequest_loop self u m net retryCount attempt lastError = ([Attempt attempt], Inl err)"
  by (simp add: executeRequest_loop.simps)

lemma loop_retry_no_status:
  "int attempt < retryCount \<Longrightarrow> performRequest self u m (net attempt) = Inl err \<Longrightarrow>
   truthy_status err = None \<Longrightarrow>
     executeRequest_loop self u m net retryCount attempt lastError =
       (Attempt attempt
          # Sleep ((case retry_prop (retry m) delay of None \<Rightarrow> 1000 | Some d \<Rightarrow> d)
                   * (case retry_prop (retry m) backoff of None \<Rightarrow> 1 | Some b \<Rightarrow> b) ^ attempt)
          # fst (executeRequest_loop self u m net retryCount (Suc attempt) (Some err)),
        snd (executeRequest_loop self u m net retryCount (Suc attempt) (Some err)))"
  by (subst executeRequest_loop.simps) (simp add: Let_def)

lemma truthy_status_timeout: "truthy_status (TFetch (new_TimeoutError msg ms)) = None"
  by (simp add: new_TimeoutError_def new_FetchError_def)

lemma performRequest_catch_abort:
  "performRequest_catch cfg (TOther (JsError ''AbortError'' m)) =
     TFetch (new_TimeoutError
               (''Request timeout after ''
                  @ (case timeout cfg of None \<Rightarrow> ''undefined'' | Some t \<Rightarrow> string_of_int t) @ ''ms'')
               (case timeout cfg of None \<Rightarrow> 0 | Some t \<Rightarrow> t))"
  by (simp add: performRequest_catch_def)

lemma mergeConfig_no_override: "mergeConfig (Some self) None = Inr self"
  by (simp add: mergeConfig_def)

text \<open>
  C3. When \<open>retry.count\<close> of the merged configuration is 2 and each of the attempts
  0, 1 and 2 fails with a \<open>TimeoutError\<close> (which carries no HTTP status),
  \<open>executeRequest\<close> makes exactly these three attempts, sleeps
  \<open>baseDelay * backoff ^ 0\<close> after attempt 0 and \<open>baseDelay * backoff ^ 1\<close> after
  attempt 1 (\<open>baseDelay\<close> defaults to 1000 and \<open>backoff\<close> to 1), and throws the
  \<open>TimeoutError\<close> of the last attempt: timeouts are retried until the attempts are
  used up.
\<close>

theorem timeouts_retried_until_budget_exhausted:
  assumes "mergeConfig (Some self) config = Inr m"
    and "retry_prop (retry m) count = Some 2"
    and "performRequest self u m (net 0) = Inl (TFetch (new_TimeoutError msg0 ms0))"
    and "performRequest self u m (net 1) = Inl (TFetch (new_TimeoutError msg1 ms1))"
    and "performRequest self u m (net 2) = Inl (TFetch (new_TimeoutError msg2 ms2))"
  shows "executeRequest self u config net =
           ([Attempt 0,
             Sleep ((case retry_prop (retry m) delay of None \<Rightarrow> 1000 | Some d \<Rightarrow> d)
                    * (case retry_prop (retry m) backoff of None \<Rightarrow> 1 | Some b \<Rightarrow> b) ^ 0),
             Attempt 1,
             Sleep ((case retry_prop (retry m) delay of None \<Rightarrow> 1000 | Some d \<Rightarrow> d)
                    * (case retry_prop (retry m) backoff of None \<Rightarrow> 1 | Some b \<Rightarrow> b) ^ 1),
             Attempt 2],
            Inl (TFetch (new_TimeoutError msg2 ms2)))"
proof -
  let ?d = "case retry_prop (retry m) delay of None \<Rightarrow> 1000 | Some d \<Rightarrow> d"
  let ?b = "case retry_prop (retry m) backoff of None \<Rightarrow> 1 | Some b \<Rightarrow> b"
  have p1: "performRequest self u m (net (Suc 0)) = Inl (TFetch (new_TimeoutError msg1 ms1))"
    using assms(4) by simp
  have p2: "performRequest self u m (net (Suc (Suc 0))) = Inl (TFetch (new_TimeoutError msg2 ms2))"
    using assms(5) by (simp add: numeral_2_eq_2)
  have l2: "executeRequest_loop self u m net 2 (Suc (Suc 0))
              (Some (TFetch (new_TimeoutError msg1 ms1)))
              = ([Attempt (Suc (Suc 0))], Inl (TFetch (new_TimeoutError msg2 ms2)))"
    by (rule loop_last_attempt [where net = net and attempt = "Suc (Suc 0)", OF _ p2]) simp
  have l1: "executeRequest_loop self u m net 2 (Suc 0)
              (Some (TFetch (new_TimeoutError msg0 ms0)))
              = ([Attempt (Suc 0), Sleep (?d * ?b ^ Suc 0), Attempt (Suc (Suc 0))],
                 Inl (TFetch (new_TimeoutError msg2 ms2)))"
    by (subst loop_retry_no_status [where net = net and attempt = "Suc 0", OF _ p1 truthy_status_timeout])
       (simp_all add: l2)
  have l0: "executeRequest_loop self u m net 2 0 None
              = ([Attempt 0, Sleep (?d * ?b ^ 0), Attempt (Suc 0), Sleep (?d * ?b ^ Suc 0),
                  Attempt (Suc (Suc 0))],
                 Inl (TFetch (new_TimeoutError msg2 ms2)))"
    by (subst loop_retry_no_status [where net = net and attempt = 0, OF _ assms(3) truthy_status_timeout])
       (simp_all add: l1)
  show ?thesis
    unfolding executeRequest_def Let_def using assms(1,2) l0 by (simp add: numeral_2_eq_2)
qed

lemma merged_timeout_cfg:
  "mergeConfig (Some empty_config) (Some cfg_retry2) =
     Inr (cfg_retry2\<lparr>params := Some [], headers := Some (HHeaders [])\<rparr>)"
  by (simp add: mergeConfig_def mergeHeaders_def empty_config_def cfg_retry2_def retry_spread_def
        retry_prop_def spread_prop_def object_spread_def)

lemma performRequest_abort:
  "performRequest empty_config ''/slow''
     (cfg_retry2\<lparr>params := Some [], headers := Some (HHeaders [])\<rparr>) (net_abort i)
     = Inl (TFetch (new_TimeoutError ''Request timeout after 100ms'' 100))"
  by (simp add: performRequest_def empty_config_def cfg_retry2_def net_abort_def
      mergeHeaders_def buildURL_def serializeBody_def
      getContentType_def FetchConfig.truncate_def performRequest_try_def performRequest_catch_def
      USP_toString_def string_of_int_def string_of_nat.simps digit_char_def)

theorem timeouts_retried_until_budget_exhausted_witness:
  "mergeConfig (Some empty_config) (Some cfg_retry2)
     = Inr (cfg_retry2\<lparr>params := Some [], headers := Some (HHeaders [])\<rparr>)
   \<and> retry_prop (retry (cfg_retry2\<lparr>params := Some [], headers := Some (HHeaders [])\<rparr>)) count
       = Some 2
   \<and> performRequest empty_config ''/slow''
        (cfg_retry2\<lparr>params := Some [], headers := Some (HHeaders [])\<rparr>) (net_abort 2)
       = Inl (TFetch (new_TimeoutError ''Request timeout after 100ms'' 100))
   \<and> executeRequest empty_config ''/slow'' (Some cfg_retry2) net_abort =
        ([Attempt 0, Sleep 1000, Attempt 1, Sleep 2000, Attempt 2],
         Inl (TFetch (new_TimeoutError ''Request timeout after 100ms'' 100)))"
proof -
  have r: "retry (cfg_retry2\<lparr>params := Some [], headers := Some (HHeaders [])\<rparr>)
             = Some \<lparr>count = Some 2, delay = Some 1000, backoff = Some 2, retryOn = None\<rparr>"
    by (simp add: cfg_retry2_def empty_config_def)
  have c: "retry_prop (retry (cfg_retry2\<lparr>params := Some [], headers := Some (HHeaders [])\<rparr>)) count
             = Some 2"
    by (simp add: r retry_prop_def)
  from timeouts_retried_until_budget_exhausted
         [where net = net_abort,
          OF merged_timeout_cfg c performRequest_abort [of 0] performRequest_abort [of 1]
             performRequest_abort [of 2]]
  show ?thesis
    using merged_timeout_cfg c performRequest_abort [of 2] by (simp add: r retry_prop_def)
qed

text \<open>
  An attempt whose error carries a status that is not 0 and not retryable ends
  \<open>executeRequest\<close> at once, as with the 404 of the repository's test, whose mock
  answers \<open>json()\<close>.
\<close>

lemma status_error_fails_fast:
  assumes "mergeConfig (Some self) config = Inr m"
    and "0 \<le> (case retry_prop (retry m) count of None \<Rightarrow> 0 | Some c \<Rightarrow> c)"
    and "performRequest self u m (net 0) = Inl (TFetch e)"
    and "err_status e = Some s" and "s \<noteq> 0"
    and "\<not> shouldRetry s (retry_prop (retry m) retryOn)"
  shows "executeRequest self u config net = ([Attempt 0], Inl (TFetch e))"
proof -
  have "truthy_status (TFetch e) = Some s" using assms(4,5) by simp
  with assms(2,3,6) show ?thesis
    unfolding executeRequest_def Let_def assms(1)
    by (simp add: loop_fail_fast [where net = net and attempt = 0])
qed

lemma performRequest_404:
  "performRequest cfg_retry3 ''/users/999'' cfg_retry3 (net_404 i)
     = Inl (TFetch (new_FetchError ''Request failed with status 404'' (Some resp_404) (Some 404)
                      (Some ''Not Found'') (JObj [(''error'', JStr ''User not found'')])))"
  by (simp add: performRequest_def empty_config_def cfg_retry3_def net_404_def
      mergeHeaders_def buildURL_def serializeBody_def
      getContentType_def FetchConfig.truncate_def performRequest_try_def isValid_def
      performRequest_catch_def new_FetchError_def
      parseResponse_def resp_404_def string_of_int_def string_of_nat.simps digit_char_def)

lemma json_404_fails_fast:
  "executeRequest cfg_retry3 ''/users/999'' None net_404 =
        ([Attempt 0],
         Inl (TFetch (new_FetchError ''Request failed with status 404'' (Some resp_404) (Some 404)
                        (Some ''Not Found'') (JObj [(''error'', JStr ''User not found'')]))))"
proof -
  have c: "retry_prop (retry cfg_retry3) count = Some 3"
    and r: "retry_prop (retry cfg_retry3) retryOn = None"
    by (simp_all add: cfg_retry3_def retry_prop_def)
  show ?thesis
    by (rule status_error_fails_fast
          [where net = net_404 and s = 404, OF mergeConfig_no_override _ performRequest_404])
       (simp_all add: c r shouldRetry_def new_FetchError_def)
qed

lemma performRequest_html404:
  "performRequest cfg_retry3 ''/missing'' cfg_retry3 (net_html404 i)
     = Inl (TFetch (new_FetchError ''Body is unusable: Body has already been read''
                      None None None JUndefined))"
  by (simp add: performRequest_def empty_config_def cfg_retry3_def net_html404_def
      mergeHeaders_def buildURL_def serializeBody_def
      getContentType_def FetchConfig.truncate_def performRequest_try_def isValid_def
      performRequest_catch_def parseResponse_def resp_html404_def)

text \<open>
  C4. An attempt that fails with an HTTP status outside the retryable set, such as
  404, is to end \<open>executeRequest\<close> after that one attempt. It does not when the body
  of the response cannot be read as the configured \<open>responseType\<close>: for a 404 with an
  HTML body and \<open>retry.count = 3\<close>, \<open>json()\<close> fails, the fallback \<open>text()\<close> rejects
  because the body has been read, the error that leaves \<open>performRequest\<close> carries no
  status, and \<open>executeRequest\<close> makes all four attempts, sleeping 1000 ms after each
  of the first three.
\<close>

theorem unreadable_404_is_retried:
  "status resp_html404 = 404 \<and> \<not> shouldRetry 404 (retry_prop (retry cfg_retry3) retryOn)
   \<and> retry_prop (retry cfg_retry3) count = Some 3
   \<and> executeRequest cfg_retry3 ''/missing'' None net_html404 =
       ([Attempt 0, Sleep 1000, Attempt 1, Sleep 1000, Attempt 2, Sleep 1000, Attempt 3],
        Inl (TFetch (new_FetchError ''Body is unusable: Body has already been read''
                       None None None JUndefined)))"
proof -
  have c: "retry_prop (retry cfg_retry3) count = Some 3"
    and r: "retry_prop (retry cfg_retry3) retryOn = None"
    and d: "retry_prop (retry cfg_retry3) delay = None"
    and b: "retry_prop (retry cfg_retry3) backoff = None"
    by (simp_all add: cfg_retry3_def retry_prop_def)
  have "executeRequest_loop cfg_retry3 ''/missing'' cfg_retry3 net_html404 3 0 None =
       ([Attempt 0, Sleep 1000, Attempt 1, Sleep 1000, Attempt 2, Sleep 1000, Attempt 3],
        Inl (TFetch (new_FetchError ''Body is unusable: Body has already been read''
                       None None None JUndefined)))"
    by (simp add: executeRequest_loop.simps performRequest_html404 d b new_FetchError_def)
  then show ?thesis
    by (simp add: executeRequest_def mergeConfig_no_override c r shouldRetry_def resp_html404_def)
qed

section \<open>The public request\<close>

lemma request_cases:
  "snd (request self u config net) =
     (case snd (executeRequest self u config net) of
        Inr resp \<Rightarrow> Inr \<lparr>success = True, data = Some resp, error = None\<rparr>
      | Inl err \<Rightarrow>
          (case createError err of
             Inl t \<Rightarrow> Inl t
           | Inr fe \<Rightarrow>
               (case (case onError self of None \<Rightarrow> None | Some f \<Rightarrow> f fe) of
                  Some t \<Rightarrow> Inl t
                | None \<Rightarrow> Inr \<lparr>success = False, data = None, error = Some fe\<rparr>)))"
proof -
  obtain evs res where e: "executeRequest self u config net = (evs, res)"
    by (cases "executeRequest self u config net")
  show ?thesis
  proof (cases res)
    case (Inl err)
    then show ?thesis
      using e by (cases err) (simp_all add: request_def split: option.splits sum.splits)
  next
    case (Inr resp)
    then show ?thesis using e by (simp add: request_def)
  qed
qed

text \<open>
  What holds of "never throws": with \<open>onError\<close> absent or not throwing, \<open>request\<close>
  resolves to a \<open>Result\<close> whenever \<open>createError\<close> returns for what \<open>executeRequest\<close>
  throws, and then a failure has \<open>success = false\<close>, no data, and the \<open>FetchError\<close>
  in its error slot.
\<close>

lemma request_resolves_when_createError_returns:
  assumes "onError self = None \<or> (\<exists>f. onError self = Some f \<and> (\<forall>e. f e = None))"
    and "\<And>err. snd (executeRequest self u config net) = Inl err \<Longrightarrow> \<exists>fe. createError err = Inr fe"
  shows "\<exists>r. snd (request self u config net) = Inr r \<and>
           (case snd (executeRequest self u config net) of
              Inr resp \<Rightarrow> success r \<and> data r = Some resp \<and> error r = None
            | Inl err \<Rightarrow> \<not> success r \<and> data r = None
                        \<and> (\<exists>fe. createError err = Inr fe \<and> error r = Some fe))"
proof (cases "snd (executeRequest self u config net)")
  case (Inl err)
  with assms(2) obtain fe where "createError err = Inr fe" by blast
  with Inl assms(1) show ?thesis by (auto simp: request_cases)
next
  case (Inr resp)
  then show ?thesis by (simp add: request_cases)
qed

text \<open>
  The same object thrown inside the \<open>try\<close> block of \<open>performRequest\<close> (here by
  \<open>onResponse\<close>) does end in a \<open>Result\<close>: the \<open>TypeError\<close> of \<open>String\<close> is thrown in
  the \<open>catch\<close> clause of \<open>performRequest\<close>, and \<open>request\<close> wraps it.
\<close>

lemma request_resolves_when_thrown_inside_try:
  "request self_onResponse_throws_object ''/users'' None net_200 =
     ([Attempt 0],
      Inr \<lparr>success = False, data = None,
           error = Some (new_FetchError ''Cannot convert object to primitive value''
                           None None None JUndefined)\<rparr>)"
  by (simp add: request_def executeRequest_def mergeConfig_no_override executeRequest_loop.simps
        self_onResponse_throws_object_def empty_config_def retry_prop_def performRequest_def
        mergeHeaders_def buildURL_def serializeBody_def getContentType_def
        FetchConfig.truncate_def performRequest_try_def isValid_def parseResponse_def
        resp_200_def net_200_def performRequest_catch_def no_string_object_def
        String_TypeError_def)

text \<open>
  C1. With \<open>onError\<close> absent or not throwing, \<open>request\<close> is never to throw. It does
  when a request hook, which runs outside the \<open>try\<close> block of \<open>performRequest\<close>,
  throws a value that has no conversion to a string: with no \<open>onError\<close> and an
  \<open>onRequest\<close> that throws the object \<open>{ toString: null }\<close>, \<open>executeRequest\<close>
  rethrows the object after its one attempt, \<open>String(error)\<close> in \<open>createError\<close> throws
  a \<open>TypeError\<close>, and \<open>request\<close> rejects with it.
\<close>

theorem request_rejects_when_String_throws:
  "onError self_onRequest_throws_object = None
   \<and> executeRequest self_onRequest_throws_object ''/users'' None net_200
       = ([Attempt 0], Inl (TOther (JsThrown no_string_object)))
   \<and> request self_onRequest_throws_object ''/users'' None net_200
       = ([Attempt 0], Inl (TOther (JsError ''TypeError'' ''Cannot convert object to primitive value'')))"
proof -
  have e: "executeRequest self_onRequest_throws_object ''/users'' None net_200
             = ([Attempt 0], Inl (TOther (JsThrown no_string_object)))"
    by (simp add: executeRequest_def mergeConfig_no_override executeRequest_loop.simps
          self_onRequest_throws_object_def empty_config_def retry_prop_def performRequest_def
          mergeHeaders_def buildURL_def serializeBody_def getContentType_def
          FetchConfig.truncate_def)
  show ?thesis
    by (simp add: e request_def no_string_object_def String_TypeError_def)
       (simp add: self_onRequest_throws_object_def empty_config_def)
qed

lemma request_result_shape:
  assumes "snd (request self u config net) = Inr r"
  shows "(success r \<and> data r \<noteq> None \<and> error r = None)
         \<noteq> (\<not> success r \<and> data r = None \<and> error r \<noteq> None)"
  using assms by (auto simp: request_cases split: sum.splits option.splits)

text \<open>
  C2. Every \<open>Result\<close> that \<open>request\<close>, \<open>get\<close>, \<open>post\<close>, \<open>put\<close>, \<open>patch\<close> or
  \<open>delete\<close> resolves to satisfies exactly one of: \<open>success\<close> is true, the data is
  not null and the error is null; or \<open>success\<close> is false, the data is null and the
  error is not null.
\<close>

theorem result_exactly_one_of_data_error:
  assumes "res = request self u config net \<or> res = get self u config net
           \<or> res = post self u b config net \<or> res = put self u b config net
           \<or> res = patch self u b config net \<or> res = delete self u config net"
    and "snd res = Inr r"
  shows "(success r \<and> data r \<noteq> None \<and> error r = None)
         \<noteq> (\<not> success r \<and> data r = None \<and> error r \<noteq> None)"
  using assms request_result_shape unfolding get_def post_def put_def patch_def delete_def
  by blast

theorem result_exactly_one_of_data_error_witness:
  "snd (get empty_config ''https://api.example.com/users'' None net_down) = Inr network_failure
   \<and> ((success network_failure \<and> data network_failure \<noteq> None \<and> error network_failure = None)
       \<noteq> (\<not> success network_failure \<and> data network_failure = None
            \<and> error network_failure \<noteq> None))"
proof -
  have x: "snd (executeRequest empty_config ''https://api.example.com/users''
                  (Some ((config_or_empty None)\<lparr>method' := Some ''GET''\<rparr>)) net_down)
             = Inl (TFetch (new_FetchError ''Network error'' None None None JUndefined))"
    by (simp add: executeRequest_def executeRequest_loop.simps mergeConfig_def retry_prop_def
          retry_spread_def spread_prop_def object_spread_def config_or_empty_def
          empty_config_def performRequest_def net_down_def mergeHeaders_def buildURL_def
          USP_toString_def
          serializeBody_def getContentType_def FetchConfig.truncate_def performRequest_try_def
          performRequest_catch_def)
  have g: "snd (get empty_config ''https://api.example.com/users'' None net_down)
             = Inr network_failure"
    unfolding get_def network_failure_def
    by (simp add: request_cases x) (simp add: empty_config_def)
  from result_exactly_one_of_data_error
         [of "get empty_config ''https://api.example.com/users'' None net_down"
             empty_config "''https://api.example.com/users''" None net_down JUndefined, OF _ g] g
  show ?thesis by blast
qed

lemma merged_negative_cfg:
  "mergeConfig (Some self_onError_throws) (Some cfg_negative)
     = Inr (self_onError_throws
              \<lparr>params := Some [], headers := Some (HHeaders []),
               retry := Some \<lparr>count = Some (- 1), delay = None, backoff = None, retryOn = None\<rparr>\<rparr>)"
  "mergeConfig (Some empty_config) (Some cfg_negative)
     = Inr (cfg_negative\<lparr>params := Some [], headers := Some (HHeaders [])\<rparr>)"
  by (simp_all add: mergeConfig_def mergeHeaders_def empty_config_def self_onError_throws_def
        cfg_negative_def retry_spread_def retry_prop_def spread_prop_def object_spread_def)

text \<open>
  Against C10 as stated: with a negative \<open>retry.count\<close> and an error interceptor
  that throws, \<open>request\<close> makes no attempt and resolves to no \<open>Result\<close>: it throws
  what the interceptor throws.
\<close>

theorem negative_retry_count_onError_throws:
  "mergeConfig (Some self_onError_throws) (Some cfg_negative)
     = Inr (self_onError_throws
              \<lparr>params := Some [], headers := Some (HHeaders []),
               retry := Some \<lparr>count = Some (- 1), delay = None, backoff = None, retryOn = None\<rparr>\<rparr>)
   \<and> retry_prop
         (retry (self_onError_throws
                   \<lparr>params := Some [], headers := Some (HHeaders []),
                    retry := Some \<lparr>count = Some (- 1), delay = None, backoff = None,
                                   retryOn = None\<rparr>\<rparr>)) count = Some (- 1)
   \<and> request self_onError_throws ''/users'' (Some cfg_negative) net_down
       = ([], Inl (TOther (JsError ''Error'' ''interceptor failed'')))"
proof -
  have e: "executeRequest self_onError_throws ''/users'' (Some cfg_negative) net_down
             = ([], Inl (TOther (JsThrown JUndefined)))"
    unfolding executeRequest_def Let_def
    by (simp add: merged_negative_cfg retry_prop_def loop_past_budget)
  have o: "onError self_onError_throws
             = Some (\<lambda>e. Some (TOther (JsError ''Error'' ''interceptor failed'')))"
    by (simp add: self_onError_throws_def empty_config_def)
  show ?thesis
    by (simp add: merged_negative_cfg retry_prop_def request_def e o)
qed

text \<open>
  C10, amended. When \<open>retry.count\<close> of the merged configuration is negative, the
  loop of \<open>executeRequest\<close> never runs its body: no attempt is made, nothing is slept,
  and \<open>undefined\<close>, the initial value of the accumulator, is thrown. If moreover the
  error interceptor \<open>onError\<close> is absent or does not throw, \<open>request\<close> resolves to a
  failure \<open>Result\<close> whose error is the \<open>FetchError\<close> with the message
  \<open>undefined\<close>.
\<close>

theorem negative_retry_count_no_attempt:
  assumes "mergeConfig (Some self) config = Inr m"
    and "retry_prop (retry m) count = Some c" and "c < 0"
  shows "executeRequest self u config net = ([], Inl (TOther (JsThrown JUndefined)))
         \<and> (onError self = None \<or> (\<exists>f. onError self = Some f \<and> (\<forall>e. f e = None))
              \<longrightarrow> request self u config net =
                    ([], Inr \<lparr>success = False, data = None,
                              error = Some (new_FetchError ''undefined'' None None None
                                              JUndefined)\<rparr>))"
proof -
  have e: "executeRequest self u config net = ([], Inl (TOther (JsThrown JUndefined)))"
    unfolding executeRequest_def Let_def using assms by (simp add: loop_past_budget)
  moreover have "request self u config net =
             ([], Inr \<lparr>success = False, data = None,
                       error = Some (new_FetchError ''undefined'' None None None JUndefined)\<rparr>)"
    if "onError self = None \<or> (\<exists>f. onError self = Some f \<and> (\<forall>e. f e = None))"
    using that by (auto simp: request_def e)
  ultimately show ?thesis by simp
qed

theorem negative_retry_count_no_attempt_witness:
  "mergeConfig (Some empty_config) (Some cfg_negative)
     = Inr (cfg_negative\<lparr>params := Some [], headers := Some (HHeaders [])\<rparr>)
   \<and> retry_prop (retry (cfg_negative\<lparr>params := Some [], headers := Some (HHeaders [])\<rparr>)) count
       = Some (- 1)
   \<and> onError empty_config = None
   \<and> executeRequest empty_config ''/users'' (Some cfg_negative) net_down
       = ([], Inl (TOther (JsThrown JUndefined)))
   \<and> request empty_config ''/users'' (Some cfg_negative) net_down =
       ([], Inr \<lparr>success = False, data = None,
                 error = Some (new_FetchError ''undefined'' None None None JUndefined)\<rparr>)"
proof -
  have c: "retry_prop (retry (cfg_negative\<lparr>params := Some [], headers := Some (HHeaders [])\<rparr>)) count
             = Some (- 1)"
    by (simp add: cfg_negative_def empty_config_def retry_prop_def)
  have n: "(- 1 :: int) < 0" by simp
  have h: "onError empty_config = None" by (simp add: empty_config_def)
  from negative_retry_count_no_attempt [OF merged_negative_cfg(2) c n, of "''/users''" net_down]
       merged_negative_cfg(2) c h
  show ?thesis by simp
qed

section \<open>Installing and restoring the global fetch\<close>

text \<open>
  What holds of the life cycle: \<open>polyfillFetch\<close> captures the global binding only
  when nothing is captured yet, and installs the wrapper; \<open>restoreFetch\<close> puts the
  captured binding back, clears the capture, and returns true exactly when something
  was captured.
\<close>

lemma polyfillFetch_captures_once:
  "originalFetch (snd (polyfillFetch config st))
     = (case originalFetch st of None \<Rightarrow> globalFetch st | Some f \<Rightarrow> Some f)
   \<and> globalFetch (snd (polyfillFetch config st)) = Some (Wrapper (createFetch config))
   \<and> fst (polyfillFetch config st) = True"
  by (simp add: polyfillFetch_def hasFetch_def Let_def split: option.splits)

lemma restoreFetch_clears:
  "isPolyfilled (snd (restoreFetch st)) = False
   \<and> fst (restoreFetch st) = isPolyfilled st
   \<and> globalFetch (snd (restoreFetch st)) = originalFetch st"
  by (simp add: restoreFetch_def isPolyfilled_def split: option.splits)

lemma isPolyfilled_after_install:
  "isPolyfilled (snd (polyfillFetch config st)) = (originalFetch st \<noteq> None \<or> globalFetch st \<noteq> None)"
  by (auto simp: polyfillFetch_def hasFetch_def isPolyfilled_def Let_def)

text \<open>
  C9. After an install \<open>isPolyfilled\<close> is to report "installed". In a runtime with no
  global \<open>fetch\<close> (and nothing captured) it does not: \<open>polyfillFetch\<close> installs
  the wrapper and returns true, captures nothing, and \<open>isPolyfilled\<close> is false.
\<close>

theorem isPolyfilled_false_after_install_without_global_fetch:
  "polyfillFetch None no_global_fetch
     = (True, \<lparr>originalFetch = None, globalFetch = Some (Wrapper empty_config)\<rparr>)
   \<and> isPolyfilled (snd (polyfillFetch None no_global_fetch)) = False"
  by (simp add: polyfillFetch_def no_global_fetch_def hasFetch_def createFetch_def
        config_or_empty_def isPolyfilled_def)

end
